theory Spec2Isabelle
  imports Complex_Main
begin

section \<open>Numeric values\<close>

text \<open>
  The arrays of \<^verbatim>\<open>data_classes.py\<close> hold IEEE floating-point numbers. A number is
  modelled by what the code observes of it: not-a-number, an infinity, or a finite
  value, the finite values taken as reals (rounding, overflow of finite arithmetic and
  the sign of zero are not modelled).
\<close>

datatype fl = Fin real | PInf | NInf | NaN

text \<open>\<^verbatim>\<open>np.isnan\<close>\<close>

fun isnan :: "fl \<Rightarrow> bool" where
  "isnan NaN = True"
| "isnan _ = False"

text \<open>\<^verbatim>\<open>a == b\<close> on floats: a NaN is equal to nothing, itself included.\<close>

fun fl_eq :: "fl \<Rightarrow> fl \<Rightarrow> bool" where
  "fl_eq (Fin x) (Fin y) = (x = y)"
| "fl_eq PInf PInf = True"
| "fl_eq NInf NInf = True"
| "fl_eq _ _ = False"

text \<open>\<^verbatim>\<open>a < b\<close> on floats: every comparison with a NaN is false.\<close>

fun fl_less :: "fl \<Rightarrow> fl \<Rightarrow> bool" where
  "fl_less (Fin x) (Fin y) = (x < y)"
| "fl_less (Fin x) PInf = True"
| "fl_less NInf (Fin y) = True"
| "fl_less NInf PInf = True"
| "fl_less _ _ = False"

text \<open>\<^verbatim>\<open>np.abs\<close>\<close>

fun fl_abs :: "fl \<Rightarrow> fl" where
  "fl_abs (Fin x) = Fin \<bar>x\<bar>"
| "fl_abs PInf = PInf"
| "fl_abs NInf = PInf"
| "fl_abs NaN = NaN"

fun fl_neg :: "fl \<Rightarrow> fl" where
  "fl_neg (Fin x) = Fin (- x)"
| "fl_neg PInf = NInf"
| "fl_neg NInf = PInf"
| "fl_neg NaN = NaN"

text \<open>An infinity with the sign of a finite factor; zero times infinity is NaN.\<close>

definition inf_signed :: "real \<Rightarrow> fl" where
  "inf_signed x = (if x = 0 then NaN else if 0 < x then PInf else NInf)"

fun fl_add :: "fl \<Rightarrow> fl \<Rightarrow> fl" where
  "fl_add (Fin x) (Fin y) = Fin (x + y)"
| "fl_add NaN _ = NaN"
| "fl_add _ NaN = NaN"
| "fl_add PInf NInf = NaN"
| "fl_add NInf PInf = NaN"
| "fl_add PInf _ = PInf"
| "fl_add _ PInf = PInf"
| "fl_add NInf _ = NInf"
| "fl_add _ NInf = NInf"

fun fl_mul :: "fl \<Rightarrow> fl \<Rightarrow> fl" where
  "fl_mul (Fin x) (Fin y) = Fin (x * y)"
| "fl_mul NaN _ = NaN"
| "fl_mul _ NaN = NaN"
| "fl_mul PInf (Fin y) = inf_signed y"
| "fl_mul NInf (Fin y) = inf_signed (- y)"
| "fl_mul (Fin x) PInf = inf_signed x"
| "fl_mul (Fin x) NInf = inf_signed (- x)"
| "fl_mul PInf PInf = PInf"
| "fl_mul NInf NInf = PInf"
| "fl_mul PInf NInf = NInf"
| "fl_mul NInf PInf = NInf"

text \<open>
  Division by a finite non-zero constant, the only division of the source
  (\<^verbatim>\<open>l / 2\<close>).
\<close>

fun fl_div :: "fl \<Rightarrow> real \<Rightarrow> fl" where
  "fl_div (Fin x) d = Fin (x / d)"
| "fl_div PInf d = inf_signed d"
| "fl_div NInf d = inf_signed (- d)"
| "fl_div NaN d = NaN"

text \<open>
  \<^verbatim>\<open>np.isclose(a, b)\<close> with the default tolerances \<^verbatim>\<open>rtol=1e-05\<close>,
  \<^verbatim>\<open>atol=1e-08\<close> and \<^verbatim>\<open>equal_nan=False\<close>: finite values are compared within
  the tolerance, infinities must be the same, a NaN is close to nothing.
\<close>

definition rtol :: real where "rtol = 1 / 100000"
definition atol :: real where "atol = 1 / 100000000"

fun isclose :: "fl \<Rightarrow> fl \<Rightarrow> bool" where
  "isclose (Fin x) (Fin y) = (\<bar>x - y\<bar> \<le> atol + rtol * \<bar>y\<bar>)"
| "isclose PInf PInf = True"
| "isclose NInf NInf = True"
| "isclose _ _ = False"

text \<open>\<^verbatim>\<open>np.allclose(a, b)\<close> on two arrays of the same length.\<close>

definition allclose :: "fl list \<Rightarrow> fl list \<Rightarrow> bool" where
  "allclose xs ys = list_all2 isclose xs ys"

section \<open>Exceptions\<close>

text \<open>
  A call either returns a value or raises; the exceptions the code can raise are values
  of \<open>error\<close>, and a result is \<open>error + 'a\<close> with \<open>Inl\<close> for the exception.
\<close>

datatype error =
  AssertionError | ValueError | IndexError | KeyError | UnicodeDecodeError | StructError

definition and_then :: "error + 'a \<Rightarrow> ('a \<Rightarrow> error + 'b) \<Rightarrow> error + 'b" where
  "and_then m f = (case m of Inl e \<Rightarrow> Inl e | Inr x \<Rightarrow> f x)"

text \<open>\<^verbatim>\<open>assert c\<close>\<close>

definition py_assert :: "bool \<Rightarrow> error + unit" where
  "py_assert c = (if c then Inr () else Inl AssertionError)"

text \<open>\<^verbatim>\<open>xs[k]\<close> for a constant index \<open>k \<ge> 0\<close>.\<close>

definition index :: "'a list \<Rightarrow> nat \<Rightarrow> error + 'a" where
  "index xs k = (if k < length xs then Inr (xs ! k) else Inl IndexError)"

section \<open>Box\<close>

text \<open>
  Vectors of three components (\<^verbatim>\<open>center\<close>, \<^verbatim>\<open>wlh\<close>, \<^verbatim>\<open>velocity\<close>) are
  triples: the constructor asserts the length of \<^verbatim>\<open>center\<close> and \<^verbatim>\<open>size\<close>, and
  the velocity is a triple by its default and its documentation.
\<close>

type_synonym vec3 = "fl \<times> fl \<times> fl"
type_synonym mat3 = "vec3 \<times> vec3 \<times> vec3"

definition vec3_list :: "vec3 \<Rightarrow> fl list" where
  "vec3_list v = (case v of (a, b, c) \<Rightarrow> [a, b, c])"

text \<open>
  \<^verbatim>\<open>pyquaternion.Quaternion\<close> is an external library. The code reads two things of
  an orientation: its four \<^verbatim>\<open>elements\<close> and its \<^verbatim>\<open>rotation_matrix\<close>, a
  \<open>3 \<times> 3\<close> matrix given by its rows.
\<close>

record quaternion =
  elements :: "fl list"
  rotation_matrix :: mat3

text \<open>
  \<^verbatim>\<open>label\<close> is a Python int, or NaN when absent (\<open>None\<close> here);
  \<^verbatim>\<open>score\<close> is a float, NaN when absent.
\<close>

record box =
  center :: vec3
  wlh :: vec3
  orientation :: quaternion
  label :: "int option"
  score :: fl
  velocity :: vec3
  name :: "string option"

text \<open>\<^verbatim>\<open>self.label == other.label\<close>: NaN is not equal to itself.\<close>

fun label_eq :: "int option \<Rightarrow> int option \<Rightarrow> bool" where
  "label_eq (Some i) (Some j) = (i = j)"
| "label_eq _ _ = False"

fun label_isnan :: "int option \<Rightarrow> bool" where
  "label_isnan None = True"
| "label_isnan (Some i) = False"

text \<open>
  \<^verbatim>\<open>Box.__init__\<close> (lines 224-247). \<^verbatim>\<open>int(label)\<close> and \<^verbatim>\<open>float(score)\<close> keep
  the value of a label and a score that are present.
\<close>

definition Box_init ::
  "fl list \<Rightarrow> fl list \<Rightarrow> quaternion \<Rightarrow> int option \<Rightarrow> fl \<Rightarrow> vec3 \<Rightarrow> string option
     \<Rightarrow> error + box" where
  "Box_init center0 size0 orientation0 label0 score0 velocity0 name0 =
     (if list_ex isnan center0 then Inl AssertionError
      else if list_ex isnan size0 then Inl AssertionError
      else (case center0 of
          [cx, cy, cz] \<Rightarrow>
            (case size0 of
               [sw, sl, sh] \<Rightarrow>
                 Inr \<lparr>center = (cx, cy, cz), wlh = (sw, sl, sh),
                      orientation = orientation0, label = label0, score = score0,
                      velocity = velocity0, name = name0\<rparr>
             | _ \<Rightarrow> Inl AssertionError)
        | _ \<Rightarrow> Inl AssertionError))"

text \<open>The velocity conjunct of \<^verbatim>\<open>Box.__eq__\<close> (lines 255-256).\<close>

definition vel_eq :: "vec3 \<Rightarrow> vec3 \<Rightarrow> bool" where
  "vel_eq v1 v2 =
     (allclose (vec3_list v1) (vec3_list v2) \<or>
      (list_all isnan (vec3_list v1) \<and> list_all isnan (vec3_list v2)))"

text \<open>\<^verbatim>\<open>Box.__eq__\<close> (lines 249-258).\<close>

definition box_eq :: "box \<Rightarrow> box \<Rightarrow> bool" where
  "box_eq self other =
     (let center_ok = allclose (vec3_list (center self)) (vec3_list (center other));
          wlh_ok = allclose (vec3_list (wlh self)) (vec3_list (wlh other));
          orientation_ok = allclose (elements (orientation self)) (elements (orientation other));
          label_ok = (label_eq (label self) (label other) \<or>
                      (label_isnan (label self) \<and> label_isnan (label other)));
          score_ok = (fl_eq (score self) (score other) \<or>
                      (isnan (score self) \<and> isnan (score other)));
          vel = vel_eq (velocity self) (velocity other)
      in center_ok \<and> wlh_ok \<and> orientation_ok \<and> label_ok \<and> score_ok \<and> vel)"

text \<open>Scaling an array by a number, and adding a number to every entry.\<close>

definition scale :: "fl \<Rightarrow> fl list \<Rightarrow> fl list" where
  "scale a xs = map (fl_mul a) xs"

definition shift :: "fl list \<Rightarrow> fl \<Rightarrow> fl list" where
  "shift xs a = map (\<lambda>x. fl_add x a) xs"

text \<open>
  \<^verbatim>\<open>np.dot\<close> of a \<open>3 \<times> 3\<close> matrix with a matrix of three rows: entry \<open>(r, j)\<close> is
  the product of row \<open>r\<close> with column \<open>j\<close>.
\<close>

definition dot_row :: "vec3 \<Rightarrow> fl list \<Rightarrow> fl list \<Rightarrow> fl list \<Rightarrow> fl list" where
  "dot_row r xs ys zs =
     (case r of (a, b, c) \<Rightarrow>
        map (\<lambda>(x, y, z). fl_add (fl_add (fl_mul a x) (fl_mul b y)) (fl_mul c z))
          (zip xs (zip ys zs)))"

definition dot3 :: "mat3 \<Rightarrow> fl list \<Rightarrow> fl list \<Rightarrow> fl list \<Rightarrow> fl list list" where
  "dot3 m xs ys zs =
     (case m of (r0, r1, r2) \<Rightarrow> [dot_row r0 xs ys zs, dot_row r1 xs ys zs, dot_row r2 xs ys zs])"

text \<open>
  The corners before rotation (lines 301-307): three rows of eight entries. The size is
  stored as width, length, height; x runs along the length.
\<close>

definition x_signs :: "real list" where "x_signs = [1, 1, 1, 1, -1, -1, -1, -1]"
definition y_signs :: "real list" where "y_signs = [1, -1, -1, 1, 1, -1, -1, 1]"
definition z_signs :: "real list" where "z_signs = [1, 1, -1, -1, 1, 1, -1, -1]"

definition local_corners :: "box \<Rightarrow> fl \<Rightarrow> fl list list" where
  "local_corners self wlh_factor =
     (case wlh self of (w0, l0, h0) \<Rightarrow>
        let w = fl_mul w0 wlh_factor; l = fl_mul l0 wlh_factor; h = fl_mul h0 wlh_factor;
            x_corners = scale (fl_div l 2) (map Fin x_signs);
            y_corners = scale (fl_div w 2) (map Fin y_signs);
            z_corners = scale (fl_div h 2) (map Fin z_signs)
        in [x_corners, y_corners, z_corners])"

text \<open>\<^verbatim>\<open>Box.corners\<close> (lines 294-318): a matrix of three rows, one column per corner.\<close>

definition corners :: "box \<Rightarrow> fl \<Rightarrow> fl list list" where
  "corners self wlh_factor =
     (case local_corners self wlh_factor of
        [x_corners, y_corners, z_corners] \<Rightarrow>
          (case dot3 (rotation_matrix (orientation self)) x_corners y_corners z_corners of
             [c0, c1, c2] \<Rightarrow>
               (case center self of (x, y, z) \<Rightarrow> [shift c0 x, shift c1 y, shift c2 z])
           | _ \<Rightarrow> [])
      | _ \<Rightarrow> [])"

text \<open>Column \<open>i\<close> of a matrix given by its rows.\<close>

definition column :: "'a list list \<Rightarrow> nat \<Rightarrow> 'a list" where
  "column m i = map (\<lambda>row. row ! i) m"

text \<open>
  The specification's corner \<open>i\<close>: the half extents (length, width, height) times the
  scale factor, with the signs of index \<open>i\<close>; then rotated; then moved to the center.
\<close>

definition spec_local_corner :: "box \<Rightarrow> fl \<Rightarrow> nat \<Rightarrow> vec3" where
  "spec_local_corner b s i =
     (case wlh b of (w0, l0, h0) \<Rightarrow>
        (fl_mul (Fin (x_signs ! i)) (fl_mul (fl_div l0 2) s),
         fl_mul (Fin (y_signs ! i)) (fl_mul (fl_div w0 2) s),
         fl_mul (Fin (z_signs ! i)) (fl_mul (fl_div h0 2) s)))"

definition spec_rotate :: "mat3 \<Rightarrow> vec3 \<Rightarrow> vec3" where
  "spec_rotate m v =
     (case m of (r0, r1, r2) \<Rightarrow> case v of (x, y, z) \<Rightarrow>
        let row = (\<lambda>r. case r of (a, b, c) \<Rightarrow>
                     fl_add (fl_add (fl_mul a x) (fl_mul b y)) (fl_mul c z))
        in (row r0, row r1, row r2))"

definition spec_translate :: "vec3 \<Rightarrow> vec3 \<Rightarrow> vec3" where
  "spec_translate c v = (case c of (cx, cy, cz) \<Rightarrow> case v of (x, y, z) \<Rightarrow>
     (fl_add x cx, fl_add y cy, fl_add z cz))"

definition spec_corner :: "box \<Rightarrow> fl \<Rightarrow> nat \<Rightarrow> fl list" where
  "spec_corner b s i =
     vec3_list (spec_translate (center b)
       (spec_rotate (rotation_matrix (orientation b)) (spec_local_corner b s i)))"

definition unit_quaternion :: quaternion where
  "unit_quaternion =
     \<lparr>elements = [Fin 1, Fin 0, Fin 0, Fin 0],
      rotation_matrix = ((Fin 1, Fin 0, Fin 0), (Fin 0, Fin 1, Fin 0), (Fin 0, Fin 0, Fin 1))\<rparr>"

text \<open>A box of width 2, length 4 and height 6 at the origin, with a given velocity.\<close>

definition example_box :: "vec3 \<Rightarrow> box" where
  "example_box v =
     \<lparr>center = (Fin 0, Fin 0, Fin 0), wlh = (Fin 2, Fin 4, Fin 6),
      orientation = unit_quaternion, label = None, score = NaN, velocity = v, name = None\<rparr>"

text \<open>
  The specification's reading of the velocity comparison: every component is equal in
  the two boxes, or absent in both.
\<close>

definition spec_vel_agree :: "vec3 \<Rightarrow> vec3 \<Rightarrow> bool" where
  "spec_vel_agree v1 v2 =
     list_all2 (\<lambda>a b. fl_eq a b \<or> (isnan a \<and> isnan b)) (vec3_list v1) (vec3_list v2)"

section \<open>Point clouds\<close>

text \<open>
  A matrix is the list of its rows, all of one length. \<^verbatim>\<open>PointCloud.__init__\<close>
  (lines 19-25) asserts that the matrix has four rows.
\<close>

record pointcloud =
  points :: "fl list list"

definition PointCloud_init :: "fl list list \<Rightarrow> error + pointcloud" where
  "PointCloud_init points0 =
     and_then (py_assert (length points0 = 4)) (\<lambda>_. Inr \<lparr>points = points0\<rparr>)"

text \<open>\<^verbatim>\<open>nbr_points\<close> (lines 132-137): \<^verbatim>\<open>points.shape[1]\<close>, the length of a row.\<close>

definition nbr_points :: "pointcloud \<Rightarrow> nat" where
  "nbr_points self = length (points self ! 0)"

text \<open>The points of a cloud: the columns of its matrix, in order.\<close>

definition columns :: "pointcloud \<Rightarrow> fl list list" where
  "columns self = map (column (points self)) [0..<nbr_points self]"

text \<open>\<^verbatim>\<open>row[mask]\<close>: the entries of a row where a boolean mask of the same length is true.\<close>

definition select_by :: "'a list \<Rightarrow> bool list \<Rightarrow> 'a list" where
  "select_by row keep = map fst (filter snd (zip row keep))"

text \<open>\<^verbatim>\<open>remove_close\<close> (lines 147-156).\<close>

definition remove_close :: "pointcloud \<Rightarrow> fl \<Rightarrow> pointcloud" where
  "remove_close self radius =
     (let x_filt = map (\<lambda>x. fl_less (fl_abs x) radius) (points self ! 0);
          y_filt = map (\<lambda>y. fl_less (fl_abs y) radius) (points self ! 1);
          not_close = map (\<lambda>(a, b). \<not> (a \<and> b)) (zip x_filt y_filt)
      in self\<lparr>points := map (\<lambda>row. select_by row not_close) (points self)\<rparr>)"

text \<open>
  The gate of the specification: a point is close when both its x and its y coordinate
  are within \<open>(-radius, radius)\<close>.
\<close>

definition spec_close :: "fl \<Rightarrow> fl list \<Rightarrow> bool" where
  "spec_close radius p = (fl_less (fl_abs (p ! 0)) radius \<and> fl_less (fl_abs (p ! 1)) radius)"

section \<open>Bytes and strings\<close>

text \<open>
  A file is the list of its bytes, a byte being a \<open>char\<close>. A Python \<^verbatim>\<open>str\<close> is
  modelled by its UTF-8 encoding: \<^verbatim>\<open>decode('utf-8')\<close> returns the bytes as they are
  when they are well-formed UTF-8, and raises \<^verbatim>\<open>UnicodeDecodeError\<close> otherwise. What
  the code does with a \<^verbatim>\<open>str\<close> (\<^verbatim>\<open>startswith\<close> and \<^verbatim>\<open>endswith\<close> with ASCII text,
  \<^verbatim>\<open>split(' ')\<close>, comparison, reading a one-byte format character) gives the same on
  the encoding as on the characters, since in UTF-8 a byte below \<open>0x80\<close> is always a
  character of its own. \<^verbatim>\<open>int\<close> reads the characters, through \<open>utf8_points\<close>.
\<close>

type_synonym bytes = "char list"

definition byte_val :: "char \<Rightarrow> nat" where
  "byte_val c = of_char c"

text \<open>
  The code points of a UTF-8 byte sequence, given by the values of its bytes; \<open>None\<close>
  when it is not well formed (a stray or missing continuation byte, an overlong form,
  a surrogate, a value above \<open>0x10FFFF\<close>).
\<close>

definition continuation :: "nat \<Rightarrow> bool" where
  "continuation b = (128 \<le> b \<and> b \<le> 191)"

fun utf8_points :: "nat list \<Rightarrow> nat list option" where
  "utf8_points [] = Some []"
| "utf8_points (b0 # bs) =
     (if b0 < 128 then map_option ((#) b0) (utf8_points bs)
      else if 194 \<le> b0 \<and> b0 \<le> 223 then
        (case bs of
           b1 # r \<Rightarrow>
             if continuation b1
             then map_option ((#) ((b0 - 192) * 64 + (b1 - 128))) (utf8_points r)
             else None
         | _ \<Rightarrow> None)
      else if 224 \<le> b0 \<and> b0 \<le> 239 then
        (case bs of
           b1 # b2 # r \<Rightarrow>
             if (if b0 = 224 then 160 else 128) \<le> b1 \<and> b1 \<le> (if b0 = 237 then 159 else 191) \<and>
                continuation b2
             then map_option ((#) ((b0 - 224) * 4096 + (b1 - 128) * 64 + (b2 - 128)))
                    (utf8_points r)
             else None
         | _ \<Rightarrow> None)
      else if 240 \<le> b0 \<and> b0 \<le> 244 then
        (case bs of
           b1 # b2 # b3 # r \<Rightarrow>
             if (if b0 = 240 then 144 else 128) \<le> b1 \<and> b1 \<le> (if b0 = 244 then 143 else 191) \<and>
                continuation b2 \<and> continuation b3
             then map_option
                    ((#) ((b0 - 240) * 262144 + (b1 - 128) * 4096 + (b2 - 128) * 64 + (b3 - 128)))
                    (utf8_points r)
             else None
         | _ \<Rightarrow> None)
      else None)"

definition decode_utf8 :: "bytes \<Rightarrow> error + string" where
  "decode_utf8 bs =
     (case utf8_points (map byte_val bs) of
        None \<Rightarrow> Inl UnicodeDecodeError
      | Some points0 \<Rightarrow> Inr bs)"

text \<open>\<^verbatim>\<open>bytes.strip()\<close> removes ASCII whitespace at both ends.\<close>

definition ascii_space :: "nat \<Rightarrow> bool" where
  "ascii_space n = (n = 32 \<or> (9 \<le> n \<and> n \<le> 13))"

definition is_space :: "char \<Rightarrow> bool" where
  "is_space c = ascii_space (byte_val c)"

definition strip :: "char list \<Rightarrow> char list" where
  "strip s = rev (dropWhile is_space (rev (dropWhile is_space s)))"

definition startswith :: "string \<Rightarrow> string \<Rightarrow> bool" where
  "startswith s p = (take (length p) s = p)"

definition endswith :: "string \<Rightarrow> string \<Rightarrow> bool" where
  "endswith s p = (length p \<le> length s \<and> drop (length s - length p) s = p)"

text \<open>\<^verbatim>\<open>s.split(' ')\<close>: the pieces between single spaces, empty pieces kept.\<close>

fun split_space :: "string \<Rightarrow> string list" where
  "split_space [] = [[]]"
| "split_space (c # cs) =
     (if c = CHR '' '' then [] # split_space cs
      else (case split_space cs of w # ws \<Rightarrow> (c # w) # ws | [] \<Rightarrow> [[c]]))"

text \<open>
  \<^verbatim>\<open>int(s)\<close> for a \<^verbatim>\<open>str\<close>. The interpreter first maps every character from
  \<open>0x7F\<close> on to ASCII: a Unicode space to a blank, a Unicode decimal digit to its ASCII
  digit, any other character to \<open>?\<close>. The spaces and the decimal digits are those of
  the Unicode database (version 14.0): the digits come in runs, given by their first code
  point and their length, in which the value of a digit is its position modulo ten.
\<close>

definition unicode_space :: "nat \<Rightarrow> bool" where
  "unicode_space cp =
     (cp = 133 \<or> cp = 160 \<or> cp = 5760 \<or> (8192 \<le> cp \<and> cp \<le> 8202) \<or> cp = 8232 \<or>
      cp = 8233 \<or> cp = 8239 \<or> cp = 8287 \<or> cp = 12288)"

definition decimal_runs :: "(nat \<times> nat) list" where
  "decimal_runs =
     [(48, 10), (1632, 10), (1776, 10), (1984, 10), (2406, 10), (2534, 10), (2662, 10),
      (2790, 10), (2918, 10), (3046, 10), (3174, 10), (3302, 10), (3430, 10), (3558, 10),
      (3664, 10), (3792, 10), (3872, 10), (4160, 10), (4240, 10), (6112, 10), (6160, 10),
      (6470, 10), (6608, 10), (6784, 10), (6800, 10), (6992, 10), (7088, 10), (7232, 10),
      (7248, 10), (42528, 10), (43216, 10), (43264, 10), (43472, 10), (43504, 10),
      (43600, 10), (44016, 10), (65296, 10), (66720, 10), (68912, 10), (69734, 10),
      (69872, 10), (69942, 10), (70096, 10), (70384, 10), (70736, 10), (70864, 10),
      (71248, 10), (71360, 10), (71472, 10), (71904, 10), (72016, 10), (72784, 10),
      (73040, 10), (73120, 10), (92768, 10), (92864, 10), (93008, 10), (120782, 50),
      (123200, 10), (123632, 10), (125264, 10), (130032, 10)]"

definition unicode_decimal :: "nat \<Rightarrow> nat option" where
  "unicode_decimal cp =
     (case find (\<lambda>(first, n). first \<le> cp \<and> cp < first + n) decimal_runs of
        None \<Rightarrow> None
      | Some (first, n) \<Rightarrow> Some ((cp - first) mod 10))"

definition to_ascii :: "nat \<Rightarrow> nat" where
  "to_ascii cp =
     (if cp < 127 then cp
      else if unicode_space cp then 32
      else (case unicode_decimal cp of None \<Rightarrow> 63 | Some d \<Rightarrow> 48 + d))"

text \<open>
  Then the ASCII text is read: whitespace at both ends, an optional sign, and decimal
  digits, where single underscores may stand between digits. Anything else raises
  \<^verbatim>\<open>ValueError\<close>, and so do more than 4300 digits (the default limit of the
  interpreter, \<^verbatim>\<open>sys.int_info.default_max_str_digits\<close>).
\<close>

definition ascii_digit :: "nat \<Rightarrow> bool" where
  "ascii_digit n = (48 \<le> n \<and> n \<le> 57)"

fun digits_value :: "nat list \<Rightarrow> nat \<Rightarrow> nat option" where
  "digits_value [] acc = Some acc"
| "digits_value (c # cs) acc =
     (if ascii_digit c then digits_value cs (10 * acc + (c - 48))
      else if c = 95 \<and> cs \<noteq> [] \<and> ascii_digit (hd cs) then digits_value cs acc
      else None)"

definition int_of_ascii :: "nat list \<Rightarrow> error + int" where
  "int_of_ascii s =
     (let t = rev (dropWhile ascii_space (rev (dropWhile ascii_space s)));
          negative = (t \<noteq> [] \<and> hd t = 45);
          body = (if t \<noteq> [] \<and> (hd t = 45 \<or> hd t = 43) then tl t else t)
      in if body = [] \<or> \<not> ascii_digit (hd body) then Inl ValueError
         else if 4300 < length (filter ascii_digit body) then Inl ValueError
         else (case digits_value body 0 of
                 None \<Rightarrow> Inl ValueError
               | Some n \<Rightarrow> Inr (if negative then - int n else int n)))"

text \<open>
  A \<^verbatim>\<open>str\<close> is always well-formed UTF-8, so the first case below does not arise.
\<close>

definition py_int :: "string \<Rightarrow> error + int" where
  "py_int s =
     (case utf8_points (map byte_val s) of
        None \<Rightarrow> Inl ValueError
      | Some points0 \<Rightarrow> int_of_ascii (map to_ascii points0))"

text \<open>
  \<^verbatim>\<open>xs[a:b]\<close> for integers \<open>a\<close> and \<open>b\<close>: a negative index counts from the end, and
  both ends are clamped to the list.
\<close>

definition clamp_index :: "nat \<Rightarrow> int \<Rightarrow> nat" where
  "clamp_index n i = (if i < 0 then nat (max 0 (int n + i)) else min (nat i) n)"

definition slice :: "'a list \<Rightarrow> int \<Rightarrow> int \<Rightarrow> 'a list" where
  "slice xs a b =
     (let lo = clamp_index (length xs) a; hi = clamp_index (length xs) b
      in take (hi - lo) (drop lo xs))"

section \<open>Decoding binary values\<close>

text \<open>
  The value of a little-endian byte string (the native order of the platforms the
  library runs on), as an unsigned and as a two's complement number.
\<close>

fun le_nat :: "bytes \<Rightarrow> nat" where
  "le_nat [] = 0"
| "le_nat (b # bs) = byte_val b + 256 * le_nat bs"

definition le_int :: "bytes \<Rightarrow> int" where
  "le_int bs =
     (if le_nat bs < 2 ^ (8 * length bs - 1) then int (le_nat bs)
      else int (le_nat bs) - 2 ^ (8 * length bs))"

text \<open>
  An IEEE 754 binary number of \<open>ebits\<close> exponent bits and \<open>mbits\<close> fraction bits, given
  as the unsigned value of its bit pattern: exponent all ones is an infinity (fraction
  zero) or a NaN; exponent zero is a subnormal number.
\<close>

definition ieee :: "nat \<Rightarrow> nat \<Rightarrow> nat \<Rightarrow> fl" where
  "ieee ebits mbits v =
     (let s = v div 2 ^ (ebits + mbits);
          e = (v div 2 ^ mbits) mod 2 ^ ebits;
          m = v mod 2 ^ mbits;
          bias = 2 ^ (ebits - 1) - 1;
          sgn = (if s = 0 then 1 else - 1)
      in if e = 2 ^ ebits - 1 then (if m = 0 then (if s = 0 then PInf else NInf) else NaN)
         else if e = 0 then Fin (sgn * real m / 2 ^ (bias - 1 + mbits))
         else Fin (sgn * real ((2 ^ mbits + m) * 2 ^ e) / 2 ^ (bias + mbits)))"

text \<open>
  \<^verbatim>\<open>struct.unpack(fmt, bs)[0]\<close> for a one-character format: the size of the format
  must be the number of bytes. An integer becomes a number of the matrix.
\<close>

definition struct_size :: "char \<Rightarrow> nat option" where
  "struct_size fmt =
     (if fmt = CHR ''b'' \<or> fmt = CHR ''B'' then Some 1
      else if fmt = CHR ''h'' \<or> fmt = CHR ''H'' \<or> fmt = CHR ''e'' then Some 2
      else if fmt = CHR ''i'' \<or> fmt = CHR ''I'' \<or> fmt = CHR ''f'' then Some 4
      else if fmt = CHR ''q'' \<or> fmt = CHR ''Q'' \<or> fmt = CHR ''d'' then Some 8
      else None)"

definition unpack_value :: "char \<Rightarrow> bytes \<Rightarrow> fl" where
  "unpack_value fmt bs =
     (if fmt = CHR ''e'' then ieee 5 10 (le_nat bs)
      else if fmt = CHR ''f'' then ieee 8 23 (le_nat bs)
      else if fmt = CHR ''d'' then ieee 11 52 (le_nat bs)
      else if fmt = CHR ''b'' \<or> fmt = CHR ''h'' \<or> fmt = CHR ''i'' \<or> fmt = CHR ''q''
        then Fin (real_of_int (le_int bs))
      else Fin (real (le_nat bs)))"

definition unpack :: "char \<Rightarrow> bytes \<Rightarrow> error + fl" where
  "unpack fmt bs =
     (if struct_size fmt = Some (length bs) then Inr (unpack_value fmt bs) else Inl StructError)"

section \<open>The flat decoder\<close>

text \<open>
  \<^verbatim>\<open>np.fromfile(file_name, dtype=np.float32)\<close> reads the whole items of the file:
  \<open>length div 4\<close> numbers of four bytes; bytes after the last whole item are not read.
\<close>

definition float32_at :: "bytes \<Rightarrow> nat \<Rightarrow> fl" where
  "float32_at content off = ieee 8 23 (le_nat (take 4 (drop off content)))"

definition fromfile_float32 :: "bytes \<Rightarrow> fl list" where
  "fromfile_float32 content = map (\<lambda>i. float32_at content (4 * i)) [0..<length content div 4]"

text \<open>
  \<^verbatim>\<open>scan.reshape((-1, 5))\<close>: rows of five, or \<^verbatim>\<open>ValueError\<close> when the size is not
  a multiple of five.
\<close>

definition reshape5 :: "'a list \<Rightarrow> error + 'a list list" where
  "reshape5 scan =
     (if length scan mod 5 = 0
      then Inr (map (\<lambda>i. take 5 (drop (5 * i) scan)) [0..<length scan div 5])
      else Inl ValueError)"

text \<open>The transpose of a matrix of \<open>n\<close> columns given by its rows.\<close>

definition transpose_rows :: "nat \<Rightarrow> 'a list list \<Rightarrow> 'a list list" where
  "transpose_rows n rows = map (\<lambda>j. map (\<lambda>row. row ! j) rows) [0..<n]"

text \<open>\<^verbatim>\<open>load_numpy_bin\<close> (lines 28-36), on the content of the file.\<close>

definition load_numpy_bin :: "bytes \<Rightarrow> error + fl list list" where
  "load_numpy_bin content =
     (let scan = fromfile_float32 content
      in and_then (reshape5 scan) (\<lambda>rows.
           let points = map (take 4) rows
           in Inr (transpose_rows 4 points)))"

section \<open>The header-driven decoder\<close>

text \<open>
  Lines 60-68: the lines of the file up to the first one that starts with \<open>DATA\<close>, each
  stripped and decoded, and the bytes after that line. \<open>cur\<close> is the line being read.
\<close>

fun read_header :: "string list \<Rightarrow> bytes \<Rightarrow> bytes \<Rightarrow> error + (string list \<times> bytes)" where
  "read_header meta cur [] =
     (if cur = [] then Inr (meta, [])
      else and_then (decode_utf8 (strip cur)) (\<lambda>line. Inr (meta @ [line], [])))"
| "read_header meta cur (c # cs) =
     (if c = CHR 0x0A
      then (case decode_utf8 (strip (cur @ [c])) of
              Inl e \<Rightarrow> Inl e
            | Inr line \<Rightarrow>
                if startswith line ''DATA'' then Inr (meta @ [line], cs)
                else read_header (meta @ [line]) [] cs)
      else read_header meta (cur @ [c]) cs)"

text \<open>The local variables after line 79.\<close>

record pcd_header =
  sizes :: "string list"
  types :: "string list"
  counts :: "string list"
  width :: int
  height :: int
  data :: string

text \<open>\<^verbatim>\<open>line.split(' ')[1]\<close>\<close>

definition second_token :: "string \<Rightarrow> error + string" where
  "second_token line = index (split_space line) 1"

text \<open>Lines 71-78.\<close>

definition parse_meta :: "string list \<Rightarrow> error + pcd_header" where
  "parse_meta meta =
     and_then (index meta 0) (\<lambda>m0.
     and_then (py_assert (startswith m0 ''#'')) (\<lambda>_.
     and_then (index meta 1) (\<lambda>m1.
     and_then (py_assert (startswith m1 ''VERSION'')) (\<lambda>_.
     and_then (index meta 3) (\<lambda>m3.
     and_then (index meta 4) (\<lambda>m4.
     and_then (index meta 5) (\<lambda>m5.
     and_then (index meta 6) (\<lambda>m6.
     and_then (second_token m6) (\<lambda>w.
     and_then (py_int w) (\<lambda>width0.
     and_then (index meta 7) (\<lambda>m7.
     and_then (second_token m7) (\<lambda>h.
     and_then (py_int h) (\<lambda>height0.
     and_then (index meta 10) (\<lambda>m10.
     and_then (second_token m10) (\<lambda>data0.
       Inr \<lparr>sizes = tl (split_space m3), types = tl (split_space m4),
            counts = tl (split_space m5), width = width0, height = height0,
            data = data0\<rparr>)))))))))))))))"

text \<open>
  Lines 80-83. The COUNT check of line 81 counts the entries \<open>c\<close> with \<^verbatim>\<open>c != c\<close>.
\<close>

definition check_header :: "pcd_header \<Rightarrow> error + unit" where
  "check_header h =
     and_then (py_assert (0 < width h)) (\<lambda>_.
     and_then (py_assert (length (filter (\<lambda>c. c \<noteq> c) (counts h)) = 0)) (\<lambda>_.
     and_then (py_assert (height h = 1)) (\<lambda>_.
       py_assert (data h = ''binary''))))"

text \<open>The lookup table of lines 86-88.\<close>

definition unpacking_lut :: "string \<Rightarrow> (int \<Rightarrow> char option) option" where
  "unpacking_lut t =
     (if t = ''F'' then
        Some (\<lambda>n. if n = 2 then Some (CHR ''e'') else if n = 4 then Some (CHR ''f'')
                  else if n = 8 then Some (CHR ''d'') else None)
      else if t = ''I'' then
        Some (\<lambda>n. if n = 1 then Some (CHR ''b'') else if n = 2 then Some (CHR ''h'')
                  else if n = 4 then Some (CHR ''i'') else if n = 8 then Some (CHR ''q'')
                  else None)
      else if t = ''U'' then
        Some (\<lambda>n. if n = 1 then Some (CHR ''B'') else if n = 2 then Some (CHR ''H'')
                  else if n = 4 then Some (CHR ''I'') else if n = 8 then Some (CHR ''Q'')
                  else None)
      else None)"

text \<open>Line 89, over \<^verbatim>\<open>zip(types, sizes)\<close>: a missing key raises \<^verbatim>\<open>KeyError\<close>.\<close>

fun types_str_of :: "(string \<times> string) list \<Rightarrow> error + string" where
  "types_str_of [] = Inr []"
| "types_str_of ((t, s) # rest) =
     (case unpacking_lut t of
        None \<Rightarrow> Inl KeyError
      | Some table \<Rightarrow>
          (case py_int s of
             Inl e \<Rightarrow> Inl e
           | Inr n \<Rightarrow>
               (case table n of
                  None \<Rightarrow> Inl KeyError
                | Some fmt \<Rightarrow>
                    (case types_str_of rest of
                       Inl e \<Rightarrow> Inl e
                     | Inr fmts \<Rightarrow> Inr (fmt # fmts)))))"

text \<open>
  The inner loop of lines 97-103, with \<open>k\<close> fields still to read from field \<open>p\<close> on: it
  returns the point and the offset after it.
\<close>

fun decode_fields ::
  "string list \<Rightarrow> string \<Rightarrow> bytes \<Rightarrow> nat \<Rightarrow> nat \<Rightarrow> int \<Rightarrow> fl list \<Rightarrow> error + (fl list \<times> int)" where
  "decode_fields sizes0 types_str data_binary 0 p offset point = Inr (point, offset)"
| "decode_fields sizes0 types_str data_binary (Suc k) p offset point =
     (case index sizes0 p of
        Inl e \<Rightarrow> Inl e
      | Inr size_p \<Rightarrow>
          (case py_int size_p of
             Inl e \<Rightarrow> Inl e
           | Inr n \<Rightarrow>
               (let start_p = offset; end_p = start_p + n
                in if \<not> end_p < int (length data_binary) then Inl AssertionError
                   else (case index types_str p of
                           Inl e \<Rightarrow> Inl e
                         | Inr fmt \<Rightarrow>
                             (case unpack fmt (slice data_binary start_p end_p) of
                                Inl e \<Rightarrow> Inl e
                              | Inr point_p \<Rightarrow>
                                  decode_fields sizes0 types_str data_binary k (Suc p) end_p
                                    (point @ [point_p]))))))"

text \<open>The outer loop of lines 95-104, with \<open>k\<close> points still to read.\<close>

fun decode_points ::
  "string list \<Rightarrow> string \<Rightarrow> bytes \<Rightarrow> nat \<Rightarrow> nat \<Rightarrow> int \<Rightarrow> fl list list \<Rightarrow> error + fl list list" where
  "decode_points sizes0 types_str data_binary feature_count 0 offset points0 = Inr points0"
| "decode_points sizes0 types_str data_binary feature_count (Suc k) offset points0 =
     (case decode_fields sizes0 types_str data_binary feature_count 0 offset [] of
        Inl e \<Rightarrow> Inl e
      | Inr (point, offset') \<Rightarrow>
          decode_points sizes0 types_str data_binary feature_count k offset' (points0 @ [point]))"

text \<open>
  Lines 106-114: a NaN in the first point gives the empty matrix of
  \<open>feature_count\<close> rows, otherwise the points are transposed. The list of points is not
  empty here, since the width is positive.
\<close>

definition finish :: "nat \<Rightarrow> fl list list \<Rightarrow> fl list list" where
  "finish feature_count points0 =
     (if list_ex isnan (points0 ! 0) then replicate feature_count []
      else transpose_rows feature_count points0)"

text \<open>Lines 70-114, on the header lines and the binary payload.\<close>

definition decode_pcd :: "string list \<Rightarrow> bytes \<Rightarrow> error + fl list list" where
  "decode_pcd meta data_binary =
     and_then (parse_meta meta) (\<lambda>h.
     and_then (check_header h) (\<lambda>_.
     and_then (types_str_of (zip (types h) (sizes h))) (\<lambda>types_str.
     and_then (decode_points (sizes h) types_str data_binary (length (types h))
                 (nat (width h)) 0 []) (\<lambda>points0.
       Inr (finish (length (types h)) points0)))))"

text \<open>\<^verbatim>\<open>load_pcd_bin\<close> (lines 38-114), on the content of the file.\<close>

definition load_pcd_bin :: "bytes \<Rightarrow> error + fl list list" where
  "load_pcd_bin content =
     and_then (read_header [] [] content) (\<lambda>(meta, data_binary). decode_pcd meta data_binary)"

text \<open>\<^verbatim>\<open>from_file\<close> (lines 116-130), on the name of the file and its content.\<close>

definition from_file :: "string \<Rightarrow> bytes \<Rightarrow> error + pointcloud" where
  "from_file file_name content =
     and_then
       (if endswith file_name ''.bin'' then load_numpy_bin content
        else if endswith file_name ''.pcd'' then load_pcd_bin content
        else Inl ValueError)
       PointCloud_init"

text \<open>A file of header lines, each ended by a newline, followed by a payload.\<close>

definition pcd_file :: "string list \<Rightarrow> bytes \<Rightarrow> bytes" where
  "pcd_file header payload = concat (map (\<lambda>l. l @ [CHR 0x0A]) header) @ payload"

text \<open>
  The eleven header lines of a file, as in the docstring of \<^verbatim>\<open>load_pcd_bin\<close>, for
  given field names, sizes, types, counts and width.
\<close>

definition header_lines :: "string \<Rightarrow> string \<Rightarrow> string \<Rightarrow> string \<Rightarrow> string \<Rightarrow> string list" where
  "header_lines names0 sizes0 types0 counts0 width0 =
     [''# .PCD v0.7 - Point Cloud Data file format'', ''VERSION 0.7'', ''FIELDS '' @ names0,
      ''SIZE '' @ sizes0, ''TYPE '' @ types0, ''COUNT '' @ counts0, ''WIDTH '' @ width0,
      ''HEIGHT 1'', ''VIEWPOINT 0 0 0 1 0 0 0'', ''POINTS '' @ width0, ''DATA binary'']"

text \<open>The float32 NaN \<open>0x7FC00000\<close> and the float32 \<open>1.0\<close>, least significant byte first.\<close>

definition nan32 :: bytes where
  "nan32 = [CHR 0x00, CHR 0x00, CHR 0xC0, CHR 0x7F]"

definition one32 :: bytes where
  "one32 = [CHR 0x00, CHR 0x00, CHR 0x80, CHR 0x3F]"

text \<open>The float32 \<open>2.0\<close> and \<open>0.0\<close>.\<close>

definition two32 :: bytes where
  "two32 = [CHR 0x00, CHR 0x00, CHR 0x00, CHR 0x40]"

definition zero32 :: bytes where
  "zero32 = [CHR 0x00, CHR 0x00, CHR 0x00, CHR 0x00]"

text \<open>The header of a radar file: the eighteen fields of the docstring, one point.\<close>

definition radar_header :: "string list" where
  "radar_header =
     header_lines
       (''x y z dyn_prop id rcs vx vy vx_comp vy_comp is_quality_valid ambig_state '' @
        ''x_rms y_rms invalid_state pdh0 vx_rms vy_rms'')
       ''4 4 4 1 2 4 4 4 4 4 1 1 1 1 1 1 1 1''
       ''F F F I I F F F F F I I I I I I I I''
       ''1 1 1 1 1 1 1 1 1 1 1 1 1 1 1 1 1 1''
       ''1''"

section \<open>Properties of the box\<close>

subsection \<open>Equality\<close>

lemma isclose_refl: "\<not> isnan x \<Longrightarrow> isclose x x"
  by (cases x) (simp_all add: atol_def rtol_def)

lemma isclose_not_nan: "isclose x y \<Longrightarrow> \<not> isnan x \<and> \<not> isnan y"
  by (cases x; cases y) simp_all

lemma fl_eq_isclose: "fl_eq x y \<Longrightarrow> isclose x y"
  by (cases x; cases y) (simp_all add: atol_def rtol_def)

lemma allclose_refl: "\<not> list_ex isnan xs \<Longrightarrow> allclose xs xs"
  by (induction xs) (simp_all add: allclose_def isclose_refl)

lemma label_ok_refl: "label_eq l l \<or> (label_isnan l \<and> label_isnan l)"
  by (cases l) simp_all

lemma score_ok_refl: "fl_eq s s \<or> (isnan s \<and> isnan s)"
  by (cases s) simp_all

lemma vel_eq_components:
  "vel_eq (a1, a2, a3) (b1, b2, b3) \<longleftrightarrow>
     (isclose a1 b1 \<and> isclose a2 b2 \<and> isclose a3 b3) \<or>
     (isnan a1 \<and> isnan a2 \<and> isnan a3 \<and> isnan b1 \<and> isnan b2 \<and> isnan b3)"
  by (auto simp: vel_eq_def allclose_def vec3_list_def)

text \<open>
  Two boxes that share center, size, orientation, label and score (none of the
  compared numbers a NaN) are equal exactly when their velocities are.
\<close>

lemma box_eq_same_frame:
  assumes "center b2 = center b1" "wlh b2 = wlh b1" "orientation b2 = orientation b1"
    "label b2 = label b1" "score b2 = score b1"
    "\<not> list_ex isnan (vec3_list (center b1))" "\<not> list_ex isnan (vec3_list (wlh b1))"
    "\<not> list_ex isnan (elements (orientation b1))"
  shows "box_eq b1 b2 = vel_eq (velocity b1) (velocity b2)"
  using assms label_ok_refl [of "label b1"] score_ok_refl [of "score b1"]
  by (simp add: box_eq_def Let_def allclose_refl)

text \<open>
  C5, as amended. For two boxes with the same center, size and orientation (and label
  and score), \<^verbatim>\<open>__eq__\<close> holds exactly when either no velocity component of either
  box is absent and the components are pairwise close in the sense of
  \<^verbatim>\<open>np.allclose\<close>, or all three components are absent in both boxes. So two boxes
  with no velocity at all are equal, a box with velocity \<open>(1, 0, 0)\<close> differs from one
  with no velocity, and two boxes whose velocities are fully present and equal
  component by component are equal. Absence is all or nothing: the comparison is not
  made component by component.
\<close>

theorem box_eq_velocity:
  assumes "center b2 = center b1" "wlh b2 = wlh b1" "orientation b2 = orientation b1"
    "label b2 = label b1" "score b2 = score b1"
    "\<not> list_ex isnan (vec3_list (center b1))" "\<not> list_ex isnan (vec3_list (wlh b1))"
    "\<not> list_ex isnan (elements (orientation b1))"
    "velocity b1 = (a1, a2, a3)" "velocity b2 = (c1, c2, c3)"
  shows "(box_eq b1 b2 \<longleftrightarrow>
           (\<not> isnan a1 \<and> \<not> isnan a2 \<and> \<not> isnan a3 \<and> \<not> isnan c1 \<and> \<not> isnan c2 \<and> \<not> isnan c3 \<and>
            isclose a1 c1 \<and> isclose a2 c2 \<and> isclose a3 c3) \<or>
           (isnan a1 \<and> isnan a2 \<and> isnan a3 \<and> isnan c1 \<and> isnan c2 \<and> isnan c3)) \<and>
         ((a1, a2, a3) = (NaN, NaN, NaN) \<and> (c1, c2, c3) = (NaN, NaN, NaN) \<longrightarrow> box_eq b1 b2) \<and>
         ((a1, a2, a3) = (Fin 1, Fin 0, Fin 0) \<and> (c1, c2, c3) = (NaN, NaN, NaN)
            \<longrightarrow> \<not> box_eq b1 b2) \<and>
         (\<not> isnan a1 \<and> \<not> isnan a2 \<and> \<not> isnan a3 \<and> fl_eq a1 c1 \<and> fl_eq a2 c2 \<and> fl_eq a3 c3
            \<longrightarrow> box_eq b1 b2)"
proof -
  have eq: "box_eq b1 b2 = vel_eq (a1, a2, a3) (c1, c2, c3)"
    using box_eq_same_frame [OF assms(1-8)] assms(9,10) by simp
  have char: "box_eq b1 b2 \<longleftrightarrow>
           (\<not> isnan a1 \<and> \<not> isnan a2 \<and> \<not> isnan a3 \<and> \<not> isnan c1 \<and> \<not> isnan c2 \<and> \<not> isnan c3 \<and>
            isclose a1 c1 \<and> isclose a2 c2 \<and> isclose a3 c3) \<or>
           (isnan a1 \<and> isnan a2 \<and> isnan a3 \<and> isnan c1 \<and> isnan c2 \<and> isnan c3)"
    unfolding eq vel_eq_components using isclose_not_nan by blast
  have absent: "(a1, a2, a3) = (NaN, NaN, NaN) \<and> (c1, c2, c3) = (NaN, NaN, NaN) \<longrightarrow> box_eq b1 b2"
    unfolding eq vel_eq_components by simp
  have differ: "(a1, a2, a3) = (Fin 1, Fin 0, Fin 0) \<and> (c1, c2, c3) = (NaN, NaN, NaN)
      \<longrightarrow> \<not> box_eq b1 b2"
    unfolding eq vel_eq_components by auto
  have same: "\<not> isnan a1 \<and> \<not> isnan a2 \<and> \<not> isnan a3 \<and> fl_eq a1 c1 \<and> fl_eq a2 c2 \<and> fl_eq a3 c3
      \<longrightarrow> box_eq b1 b2"
    unfolding eq vel_eq_components using fl_eq_isclose by blast
  from char absent differ same show ?thesis by blast
qed

theorem box_eq_velocity_witness:
  "\<not> box_eq (example_box (Fin 1, Fin 0, Fin 0)) (example_box (NaN, NaN, NaN)) \<and>
   box_eq (example_box (NaN, NaN, NaN)) (example_box (NaN, NaN, NaN)) \<and>
   box_eq (example_box (Fin 1, Fin 0, Fin 0)) (example_box (Fin 1, Fin 0, Fin 0))"
proof -
  have "\<not> box_eq (example_box (Fin 1, Fin 0, Fin 0)) (example_box (NaN, NaN, NaN))"
    using box_eq_velocity [where ?b1.0 = "example_box (Fin 1, Fin 0, Fin 0)"
        and ?b2.0 = "example_box (NaN, NaN, NaN)"
        and ?a1.0 = "Fin 1" and ?a2.0 = "Fin 0" and ?a3.0 = "Fin 0"
        and ?c1.0 = NaN and ?c2.0 = NaN and ?c3.0 = NaN]
    by (simp add: example_box_def unit_quaternion_def vec3_list_def)
  moreover have "box_eq (example_box (NaN, NaN, NaN)) (example_box (NaN, NaN, NaN))"
    using box_eq_velocity [where ?b1.0 = "example_box (NaN, NaN, NaN)"
        and ?b2.0 = "example_box (NaN, NaN, NaN)"
        and ?a1.0 = NaN and ?a2.0 = NaN and ?a3.0 = NaN
        and ?c1.0 = NaN and ?c2.0 = NaN and ?c3.0 = NaN]
    by (simp add: example_box_def unit_quaternion_def vec3_list_def)
  moreover have "box_eq (example_box (Fin 1, Fin 0, Fin 0)) (example_box (Fin 1, Fin 0, Fin 0))"
    using box_eq_velocity [where ?b1.0 = "example_box (Fin 1, Fin 0, Fin 0)"
        and ?b2.0 = "example_box (Fin 1, Fin 0, Fin 0)"
        and ?a1.0 = "Fin 1" and ?a2.0 = "Fin 0" and ?a3.0 = "Fin 0"
        and ?c1.0 = "Fin 1" and ?c2.0 = "Fin 0" and ?c3.0 = "Fin 0"]
    by (simp add: example_box_def unit_quaternion_def vec3_list_def atol_def rtol_def)
  ultimately show ?thesis by blast
qed

text \<open>
  C5 as stated fails in both directions. The velocities \<open>(1, NaN, NaN)\<close> agree
  component by component (each component equal, or absent in both), yet the boxes
  compare unequal; and the velocities \<open>(0, 0, 0)\<close> and \<open>(1e-9, 0, 0)\<close> are not equal,
  yet the boxes compare equal.
\<close>

theorem box_eq_velocity_counterexample:
  "spec_vel_agree (Fin 1, NaN, NaN) (Fin 1, NaN, NaN) \<and>
   box_eq (example_box (Fin 1, NaN, NaN)) (example_box (Fin 1, NaN, NaN)) = False \<and>
   spec_vel_agree (Fin 0, Fin 0, Fin 0) (Fin (1 / 1000000000), Fin 0, Fin 0) = False \<and>
   box_eq (example_box (Fin 0, Fin 0, Fin 0)) (example_box (Fin (1 / 1000000000), Fin 0, Fin 0))"
  by (simp add: spec_vel_agree_def box_eq_def vel_eq_def allclose_def example_box_def
      unit_quaternion_def vec3_list_def atol_def rtol_def)

text \<open>
  C10. \<^verbatim>\<open>__eq__\<close> is not reflexive: a box whose velocity has at least one absent
  component, but not all three, is not equal to itself, because \<^verbatim>\<open>np.allclose\<close>
  fails on a NaN and the fallback asks for all components of both velocities to be NaN.
\<close>

theorem box_eq_partial_velocity:
  assumes "list_ex isnan (vec3_list (velocity b))" "\<not> list_all isnan (vec3_list (velocity b))"
  shows "\<not> box_eq b b"
proof -
  obtain a1 a2 a3 where v: "velocity b = (a1, a2, a3)" by (cases "velocity b")
  have "\<not> vel_eq (a1, a2, a3) (a1, a2, a3)"
    using assms isclose_not_nan unfolding v vel_eq_components by (auto simp: vec3_list_def)
  then show ?thesis by (simp add: box_eq_def Let_def v)
qed

theorem box_eq_partial_velocity_witness:
  "Box_init [Fin 0, Fin 0, Fin 0] [Fin 2, Fin 4, Fin 6] unit_quaternion None NaN (Fin 1, NaN, NaN) None
     = Inr (example_box (Fin 1, NaN, NaN)) \<and>
   list_ex isnan (vec3_list (velocity (example_box (Fin 1, NaN, NaN)))) \<and>
   \<not> list_all isnan (vec3_list (velocity (example_box (Fin 1, NaN, NaN)))) \<and>
   \<not> box_eq (example_box (Fin 1, NaN, NaN)) (example_box (Fin 1, NaN, NaN))"
  using box_eq_partial_velocity [of "example_box (Fin 1, NaN, NaN)"]
  by (simp add: Box_init_def example_box_def vec3_list_def)

subsection \<open>Corners\<close>

lemma mul_assoc_sign:
  "fl_mul (fl_div (fl_mul l s) 2) (Fin g) = fl_mul (Fin g) (fl_mul (fl_div l 2) s)"
  by (cases l; cases s) (auto simp: inf_signed_def zero_less_mult_iff mult_less_0_iff)

lemma neg_sign: "fl_mul a (Fin (- 1)) = fl_neg (fl_mul a (Fin 1))"
  by (cases a) (auto simp: inf_signed_def)

lemma upt_8: "[0..<8] = [0, 1, 2, 3, 4, 5, 6, 7]"
  by code_simp

lemma local_corners_rows:
  "wlh b = (w0, l0, h0) \<Longrightarrow>
   local_corners b s =
     [map (\<lambda>g. fl_mul (Fin g) (fl_mul (fl_div l0 2) s)) x_signs,
      map (\<lambda>g. fl_mul (Fin g) (fl_mul (fl_div w0 2) s)) y_signs,
      map (\<lambda>g. fl_mul (Fin g) (fl_mul (fl_div h0 2) s)) z_signs]"
  by (simp add: local_corners_def scale_def Let_def mul_assoc_sign comp_def)

lemma local_corners_columns:
  "map (column (local_corners b s)) [0..<8] =
   map (\<lambda>i. vec3_list (spec_local_corner b s i)) [0..<8]"
proof -
  obtain w0 l0 h0 where w: "wlh b = (w0, l0, h0)" by (cases "wlh b")
  show ?thesis
    unfolding local_corners_rows [OF w] upt_8
    by (simp add: column_def spec_local_corner_def w vec3_list_def
        x_signs_def y_signs_def z_signs_def)
qed

lemma corners_columns:
  "map (column (corners b s)) [0..<8] = map (spec_corner b s) [0..<8]"
proof -
  obtain w0 l0 h0 where w: "wlh b = (w0, l0, h0)" by (cases "wlh b")
  obtain cx cy cz where c: "center b = (cx, cy, cz)" by (cases "center b")
  obtain r0 r1 r2 where r: "rotation_matrix (orientation b) = (r0, r1, r2)"
    by (cases "rotation_matrix (orientation b)")
  obtain a0 b0 c0 a1 b1 c1 a2 b2 c2 where
    rr: "r0 = (a0, b0, c0)" "r1 = (a1, b1, c1)" "r2 = (a2, b2, c2)"
    by (cases r0; cases r1; cases r2) blast
  show ?thesis
    unfolding corners_def local_corners_rows [OF w] upt_8
    by (simp add: column_def spec_corner_def spec_local_corner_def spec_rotate_def
        spec_translate_def w c r rr vec3_list_def dot3_def dot_row_def shift_def
        x_signs_def y_signs_def z_signs_def)
qed

lemma corners_shape:
  "length (corners b s) = 3 \<and> list_all (\<lambda>row. length row = 8) (corners b s)"
  by (cases "wlh b"; cases "center b"; cases "rotation_matrix (orientation b)")
     (simp add: corners_def local_corners_def dot3_def dot_row_def shift_def scale_def
        x_signs_def y_signs_def z_signs_def Let_def split: prod.splits)

lemma local_corner_0_4:
  "(case column (local_corners b s) 0 of
      [x, y, z] \<Rightarrow> column (local_corners b s) 4 = [fl_neg x, y, z]
    | _ \<Rightarrow> False)"
  by (cases "wlh b")
     (simp add: local_corners_def scale_def Let_def column_def x_signs_def y_signs_def
        z_signs_def neg_sign)

text \<open>
  C8. \<^verbatim>\<open>corners\<close> returns three rows of eight entries, that is eight corner columns.
  Before rotation, column \<open>i\<close> is (length/2, width/2, height/2) times the scale factor
  with the signs of index \<open>i\<close> in the patterns \<open>x_signs\<close>, \<open>y_signs\<close>, \<open>z_signs\<close>; the
  returned column \<open>i\<close> is that corner multiplied by the rotation matrix of the
  orientation, then moved by the center. Before rotation, corner 4 is corner 0 with the
  sign of x flipped.
\<close>

theorem corners_layout:
  "length (corners b s) = 3 \<and> list_all (\<lambda>row. length row = 8) (corners b s) \<and>
   x_signs = [1, 1, 1, 1, -1, -1, -1, -1] \<and>
   y_signs = [1, -1, -1, 1, 1, -1, -1, 1] \<and>
   z_signs = [1, 1, -1, -1, 1, 1, -1, -1] \<and>
   map (column (local_corners b s)) [0..<8] =
     map (\<lambda>i. vec3_list (spec_local_corner b s i)) [0..<8] \<and>
   map (column (corners b s)) [0..<8] = map (spec_corner b s) [0..<8] \<and>
   (case column (local_corners b s) 0 of
      [x, y, z] \<Rightarrow> column (local_corners b s) 4 = [fl_neg x, y, z]
    | _ \<Rightarrow> False)"
  using corners_shape [of b s] local_corners_columns [of b s] corners_columns [of b s]
    local_corner_0_4 [of b s]
  by (simp add: x_signs_def y_signs_def z_signs_def)

section \<open>Properties of the flat decoder\<close>

lemma and_then_Inr [simp]: "and_then (Inr x) f = f x"
  by (simp add: and_then_def)

lemma and_then_Inl [simp]: "and_then (Inl e) f = Inl e"
  by (simp add: and_then_def)

lemma length_fromfile: "length (fromfile_float32 content) = length content div 4"
  by (simp add: fromfile_float32_def)

lemma nth_fromfile:
  "i < length content div 4 \<Longrightarrow> fromfile_float32 content ! i = float32_at content (4 * i)"
  by (simp add: fromfile_float32_def)

lemma load_numpy_bin_error:
  "(load_numpy_bin content = Inl ValueError) = ((length content div 4) mod 5 \<noteq> 0)"
  by (simp add: load_numpy_bin_def reshape5_def length_fromfile Let_def)

lemma load_numpy_bin_whole:
  assumes "(length content div 4) mod 5 = 0"
  shows "load_numpy_bin content =
           Inr (map (\<lambda>i. map (\<lambda>k. float32_at content (20 * k + 4 * i)) [0..<length content div 20])
                  [0..<4])"
proof -
  let ?scan = "fromfile_float32 content"
  let ?n = "length content div 20"
  have n: "length content div 4 div 5 = ?n"
    by (simp add: div_mult2_eq [symmetric])
  have entry: "drop (5 * k) ?scan ! i = float32_at content (20 * k + 4 * i)"
    if "k < ?n" "i < 4" for k i
  proof -
    have "5 * k + i < length content div 4"
      using that assms by (simp add: div_mult2_eq)
    then show ?thesis
      using that by (simp add: nth_fromfile length_fromfile algebra_simps)
  qed
  have "transpose_rows 4 (map (take 4) (map (\<lambda>k. take 5 (drop (5 * k) ?scan)) [0..<?n])) =
        map (\<lambda>i. map (\<lambda>k. float32_at content (20 * k + 4 * i)) [0..<?n]) [0..<4]"
    unfolding transpose_rows_def by (rule map_cong) (auto simp: entry)
  then show ?thesis
    using assms by (simp add: load_numpy_bin_def reshape5_def length_fromfile Let_def n)
qed

lemma byte_vals:
  "byte_val (CHR 0x00) = 0" "byte_val (CHR 0xC0) = 192" "byte_val (CHR 0x7F) = 127"
  "byte_val (CHR 0x80) = 128" "byte_val (CHR 0x3F) = 63" "byte_val (CHR 0x40) = 64"
  by (simp_all add: byte_val_def)

lemma le_nat_zeros: "le_nat (replicate n (CHR 0x00)) = 0"
  by (induction n) (simp_all add: byte_vals)

lemma float32_at_whole:
  assumes "i < length content div 4"
  shows "float32_at (take (4 * (length content div 4)) content) (4 * i) = float32_at content (4 * i)"
proof -
  have "4 * i + 4 \<le> 4 * (length content div 4)"
    using assms by simp
  then have "take 4 (drop (4 * i) (take (4 * (length content div 4)) content)) =
      take 4 (drop (4 * i) content)"
    by (simp add: drop_take min_absorb1)
  then show ?thesis
    by (simp add: float32_at_def)
qed

lemma fromfile_whole:
  "fromfile_float32 (take (4 * (length content div 4)) content) = fromfile_float32 content"
proof -
  have "length (take (4 * (length content div 4)) content) div 4 = length content div 4"
    by (simp add: min_absorb2)
  then show ?thesis
    unfolding fromfile_float32_def by (auto intro!: map_cong simp: float32_at_whole)
qed

lemma load_numpy_bin_trailing:
  "load_numpy_bin content = load_numpy_bin (take (4 * (length content div 4)) content)"
  by (simp add: load_numpy_bin_def fromfile_whole)

text \<open>
  C6. A buffer whose length is a multiple of 20 bytes decodes to a matrix of four rows
  and \<open>length div 20\<close> columns: entry \<open>k\<close> of row \<open>i\<close> is the float32 at byte
  \<open>20 * k + 4 * i\<close>, that is field \<open>i\<close> (x, y, z, intensity) of point \<open>k\<close>, the points
  in the order of the input. The fifth field of a point, at byte \<open>20 * k + 16\<close>, is not in
  the result.
\<close>

theorem load_numpy_bin_multiple_of_20:
  assumes "length content mod 20 = 0"
  shows "load_numpy_bin content =
           Inr (map (\<lambda>i. map (\<lambda>k. float32_at content (20 * k + 4 * i)) [0..<length content div 20])
                  [0..<4])"
proof -
  have "(length content div 4) mod 5 = 0"
    using assms by presburger
  then show ?thesis
    by (rule load_numpy_bin_whole)
qed

lemma upt_4: "[0..<4] = [0, 1, 2, 3]"
  by code_simp

lemma upt_2: "[0..<2] = [0, 1]"
  by code_simp

theorem load_numpy_bin_multiple_of_20_witness:
  "length (one32 @ two32 @ zero32 @ one32 @ nan32 @
           two32 @ one32 @ one32 @ two32 @ one32) mod 20 = 0 \<and>
   load_numpy_bin (one32 @ two32 @ zero32 @ one32 @ nan32 @
                   two32 @ one32 @ one32 @ two32 @ one32) =
     Inr [[Fin 1, Fin 2], [Fin 2, Fin 1], [Fin 0, Fin 1], [Fin 1, Fin 2]]"
  using load_numpy_bin_multiple_of_20
    [of "one32 @ two32 @ zero32 @ one32 @ nan32 @ two32 @ one32 @ one32 @ two32 @ one32"]
  by (simp add: one32_def two32_def nan32_def zero32_def upt_4 upt_2 float32_at_def byte_vals ieee_def Let_def)

text \<open>
  C2, as amended. The flat decoder fails exactly when the number of whole four-byte
  values of the buffer, \<open>length div 4\<close>, is not a multiple of five, and then with
  \<^verbatim>\<open>ValueError\<close>; the bytes after the last whole value (at most three) are ignored, so
  the buffer decodes as its longest prefix of whole values does.
\<close>

theorem load_numpy_bin_fails_iff:
  "(load_numpy_bin content = Inl ValueError) = ((length content div 4) mod 5 \<noteq> 0) \<and>
   (\<forall>e. load_numpy_bin content = Inl e \<longrightarrow> e = ValueError) \<and>
   load_numpy_bin content = load_numpy_bin (take (4 * (length content div 4)) content)"
  using load_numpy_bin_error [of content] load_numpy_bin_trailing [of content]
  by (auto simp: load_numpy_bin_def reshape5_def Let_def split: if_splits)

theorem load_numpy_bin_fails_iff_witness:
  "load_numpy_bin (replicate 24 (CHR 0x00)) = Inl ValueError \<and>
   load_numpy_bin (replicate 21 (CHR 0x00)) = load_numpy_bin (replicate 20 (CHR 0x00))"
  using load_numpy_bin_fails_iff [of "replicate 24 (CHR 0x00)"]
    load_numpy_bin_fails_iff [of "replicate 21 (CHR 0x00)"]
  by (simp del: replicate.simps replicate_Suc)

text \<open>
  C2 as stated fails on a buffer of 21 zero bytes: its length is not a multiple of 20,
  and it decodes, without an error, to the one point of its first 20 bytes.
\<close>

theorem load_numpy_bin_truncates_counterexample:
  "length (replicate 21 (CHR 0x00)) mod 20 \<noteq> 0 \<and>
   load_numpy_bin (replicate 21 (CHR 0x00)) = Inr [[Fin 0], [Fin 0], [Fin 0], [Fin 0]]"
proof -
  have "float32_at (replicate 21 (CHR 0x00)) n = Fin 0" for n
    by (simp add: float32_at_def take_replicate drop_replicate le_nat_zeros ieee_def Let_def
        del: replicate.simps replicate_Suc)
  then show ?thesis
    using load_numpy_bin_whole [of "replicate 21 (CHR 0x00)"]
    by (simp add: upt_4 del: replicate.simps replicate_Suc)
qed

section \<open>Properties of the point cloud\<close>

lemma select_by_nths:
  "length row = length keep \<Longrightarrow>
   select_by row keep = map ((!) row) (filter ((!) keep) [0..<length keep])"
proof (induction keep arbitrary: row rule: rev_induct)
  case Nil
  then show ?case by (simp add: select_by_def)
next
  case (snoc k keep)
  then obtain r row' where row: "row = row' @ [r]" "length row' = length keep"
    by (cases row rule: rev_cases) auto
  have ih: "select_by row' keep = map ((!) row') (filter ((!) keep) [0..<length keep])"
    using snoc.IH row by simp
  have same: "map ((!) (row' @ [r])) (filter ((!) (keep @ [k])) [0..<length keep]) =
      map ((!) row') (filter ((!) keep) [0..<length keep])"
    using row by (auto simp: nth_append intro!: map_cong filter_cong)
  have last: "(keep @ [k]) ! length keep = k" "(row' @ [r]) ! length keep = r"
    using row by (simp_all add: nth_append)
  have "select_by (row' @ [r]) (keep @ [k]) = select_by row' keep @ (if k then [r] else [])"
    using row by (simp add: select_by_def)
  moreover have "map ((!) (row' @ [r])) (filter ((!) (keep @ [k])) [0..<length (keep @ [k])]) =
      map ((!) (row' @ [r])) (filter ((!) (keep @ [k])) [0..<length keep]) @ (if k then [r] else [])"
    by (simp add: last)
  ultimately show ?case
    unfolding row(1) same ih by simp
qed

lemma map_nth_comp: "map (\<lambda>j. f (K ! j)) [0..<length K] = map f K"
proof -
  have "map f (map ((!) K) [0..<length K]) = map f K"
    by (simp only: map_nth)
  then show ?thesis
    by (simp only: map_map comp_def)
qed

lemma remove_close_columns:
  assumes rows: "length (points pc) = 4"
    and rect: "list_all (\<lambda>row. length row = n) (points pc)"
  shows "columns (remove_close pc r) = filter (\<lambda>p. \<not> spec_close r p) (columns pc)"
    and "length (points (remove_close pc r)) = 4"
    and "list_all (\<lambda>row. length row = length (columns (remove_close pc r))) (points (remove_close pc r))"
proof -
  obtain r0 r1 r2 r3 where m: "points pc = [r0, r1, r2, r3]"
    using rows by (auto simp: length_Suc_conv numeral_eq_Suc)
  have len: "length r0 = n" "length r1 = n" "length r2 = n" "length r3 = n"
    using rect by (simp_all add: m)
  define keep where
    "keep = map (\<lambda>(a, b). \<not> (a \<and> b))
       (zip (map (\<lambda>x. fl_less (fl_abs x) r) r0) (map (\<lambda>y. fl_less (fl_abs y) r) r1))"
  define K where "K = filter ((!) keep) [0..<n]"
  have lk: "length keep = n" by (simp add: keep_def len)
  have keep_nth: "keep ! j = (\<not> spec_close r (column (points pc) j))" if "j < n" for j
    using that by (simp add: keep_def len spec_close_def column_def m)
  have pts: "points (remove_close pc r) = map (\<lambda>row. map ((!) row) K) [r0, r1, r2, r3]"
    using select_by_nths [of r0 keep] select_by_nths [of r1 keep] select_by_nths [of r2 keep]
      select_by_nths [of r3 keep] lk len unfolding keep_def
    unfolding K_def by (simp add: remove_close_def Let_def m keep_def)
  have nbr: "nbr_points (remove_close pc r) = length K"
    by (simp add: nbr_points_def pts)
  have "columns (remove_close pc r) = map (\<lambda>j. column (points pc) (K ! j)) [0..<length K]"
    by (simp add: columns_def nbr pts column_def m)
  also have "\<dots> = map (column (points pc)) K"
    by (rule map_nth_comp)
  also have "\<dots> = filter (\<lambda>p. \<not> spec_close r p) (map (column (points pc)) [0..<n])"
    unfolding K_def filter_map comp_def
    by (rule arg_cong [where f = "map (column (points pc))"], rule filter_cong) (auto simp: keep_nth)
  finally show "columns (remove_close pc r) = filter (\<lambda>p. \<not> spec_close r p) (columns pc)"
    by (simp add: columns_def nbr_points_def m len)
  show "length (points (remove_close pc r)) = 4" by (simp add: pts)
  show "list_all (\<lambda>row. length row = length (columns (remove_close pc r))) (points (remove_close pc r))"
    by (simp add: pts columns_def nbr)
qed

text \<open>
  C9. For a cloud of four rows of equal length, \<^verbatim>\<open>remove_close\<close> keeps exactly the
  points (columns) for which it is not the case that both \<open>|x| < radius\<close> and
  \<open>|y| < radius\<close>, in their order and with all four entries unchanged; the test reads
  rows 0 and 1 only, so z never matters. For a positive radius \<open>\<rho>\<close> the one point
  \<open>(\<rho>/2, \<rho>/2, z)\<close> is removed whatever \<open>z\<close> is (1000 included), and for every \<open>\<rho>\<close>
  the point \<open>(2\<rho>, 0, 0)\<close> is kept.
\<close>

theorem remove_close_gate:
  assumes "length (points pc) = 4" "list_all (\<lambda>row. length row = n) (points pc)"
  shows "columns (remove_close pc radius) = filter (\<lambda>p. \<not> spec_close radius p) (columns pc) \<and>
         length (points (remove_close pc radius)) = 4 \<and>
         list_all (\<lambda>row. length row = length (columns (remove_close pc radius)))
           (points (remove_close pc radius)) \<and>
         (0 < \<rho> \<longrightarrow>
            columns (remove_close \<lparr>points = [[Fin (\<rho> / 2)], [Fin (\<rho> / 2)], [z], [w]]\<rparr> (Fin \<rho>)) = []) \<and>
         columns (remove_close \<lparr>points = [[Fin (\<rho> * 2)], [Fin 0], [Fin 0], [w]]\<rparr> (Fin \<rho>)) =
           [[Fin (\<rho> * 2), Fin 0, Fin 0, w]]"
proof -
  have "columns (remove_close \<lparr>points = [[Fin (\<rho> / 2)], [Fin (\<rho> / 2)], [z], [w]]\<rparr> (Fin \<rho>)) = []"
    if "0 < \<rho>"
    using that
    by (simp add: remove_close_def select_by_def columns_def nbr_points_def Let_def)
  moreover have "columns (remove_close \<lparr>points = [[Fin (\<rho> * 2)], [Fin 0], [Fin 0], [w]]\<rparr> (Fin \<rho>)) =
           [[Fin (\<rho> * 2), Fin 0, Fin 0, w]]"
  proof -
    have "\<not> (\<bar>\<rho> * 2\<bar> < \<rho> \<and> 0 < \<rho>)"
      by linarith
    then show ?thesis
      by (auto simp: remove_close_def select_by_def columns_def nbr_points_def column_def Let_def)
  qed
  ultimately show ?thesis
    using remove_close_columns [OF assms, of radius] by blast
qed

theorem remove_close_gate_witness:
  "columns (remove_close
     \<lparr>points = [[Fin (1 / 2), Fin 2, NaN], [Fin (1 / 2), Fin 0, Fin 0],
                [Fin 1000, Fin 0, Fin 0], [Fin 7, Fin 8, Fin 9]]\<rparr> (Fin 1)) =
     [[Fin 2, Fin 0, Fin 0, Fin 8], [NaN, Fin 0, Fin 0, Fin 9]] \<and>
   columns (remove_close \<lparr>points = [[Fin (1 / 2)], [Fin (1 / 2)], [Fin 1000], [Fin 7]]\<rparr> (Fin 1)) = [] \<and>
   columns (remove_close \<lparr>points = [[Fin 2], [Fin 0], [Fin 0], [Fin 7]]\<rparr> (Fin 1)) =
     [[Fin 2, Fin 0, Fin 0, Fin 7]]"
  using remove_close_gate
    [of "\<lparr>points = [[Fin (1 / 2), Fin 2, NaN], [Fin (1 / 2), Fin 0, Fin 0],
                [Fin 1000, Fin 0, Fin 0], [Fin 7, Fin 8, Fin 9]]\<rparr>" 3 "Fin 1" 1 "Fin 1000" "Fin 7"]
  by (simp add: columns_def nbr_points_def column_def spec_close_def upt_rec [of 0 3]
      upt_rec [of 1 3] upt_rec [of 2 3])

section \<open>Properties of the header-driven decoder\<close>

lemma unpack_zeros:
  "unpack (CHR ''f'') (replicate 4 (CHR 0x00)) = Inr (Fin 0)"
  "unpack (CHR ''b'') (replicate (Suc 0) (CHR 0x00)) = Inr (Fin 0)"
  "unpack (CHR ''h'') (replicate 2 (CHR 0x00)) = Inr (Fin 0)"
  by (simp_all add: unpack_def struct_size_def unpack_value_def le_nat_zeros le_int_def
      ieee_def Let_def del: replicate.simps replicate_Suc)



lemma slice_replicate:
  "0 \<le> a \<Longrightarrow> a \<le> b \<Longrightarrow> b \<le> int n \<Longrightarrow> slice (replicate n c) a b = replicate (nat (b - a)) c"
proof -
  assume a: "0 \<le> a" "a \<le> b" "b \<le> int n"
  then have "nat b \<le> n" "nat a \<le> nat b" "nat b - nat a = nat (b - a)"
    "nat (b - a) \<le> n - nat a"
    by linarith+
  with a show ?thesis
    by (simp add: slice_def clamp_index_def Let_def min_absorb1)
qed

lemma py_int_sizes: "py_int ''1'' = Inr 1" "py_int ''2'' = Inr 2" "py_int ''4'' = Inr 4"
  by code_simp+

lemma radar_read:
  "read_header [] [] (pcd_file radar_header (replicate 44 (CHR 0x00))) =
     Inr (radar_header, replicate 44 (CHR 0x00))"
  by code_simp

lemma radar_decode:
  "decode_pcd radar_header (replicate 44 (CHR 0x00)) = Inr (replicate 18 [Fin 0])"
proof -
  define h where "h = \<lparr>sizes = [''4'', ''4'', ''4'', ''1'', ''2'', ''4'', ''4'', ''4'', ''4'', ''4'',
        ''1'', ''1'', ''1'', ''1'', ''1'', ''1'', ''1'', ''1''],
      types = [''F'', ''F'', ''F'', ''I'', ''I'', ''F'', ''F'', ''F'', ''F'', ''F'',
        ''I'', ''I'', ''I'', ''I'', ''I'', ''I'', ''I'', ''I''],
      counts = [''1'', ''1'', ''1'', ''1'', ''1'', ''1'', ''1'', ''1'', ''1'', ''1'',
        ''1'', ''1'', ''1'', ''1'', ''1'', ''1'', ''1'', ''1''],
      width = 1, height = 1, data = ''binary''\<rparr>"
  let ?P = "replicate 44 (CHR 0x00)"
  have parse: "parse_meta radar_header = Inr h"
    unfolding h_def by code_simp
  have check: "check_header h = Inr ()"
    by (simp add: h_def check_header_def py_assert_def)
  have fmts: "types_str_of (zip (types h) (sizes h)) = Inr ''fffbhfffffbbbbbbbb''"
    unfolding h_def by code_simp
  have fields: "decode_fields (sizes h) ''fffbhfffffbbbbbbbb'' ?P (length (types h)) 0 0 [] =
      Inr (replicate 18 (Fin 0), 43)"
    by (simp add: h_def index_def py_int_sizes slice_replicate unpack_zeros
        del: replicate.simps replicate_Suc) (simp add: eval_nat_numeral)
  have w: "nat (width h) = Suc 0"
    by (simp add: h_def)
  have points: "decode_points (sizes h) ''fffbhfffffbbbbbbbb'' ?P (length (types h)) (nat (width h)) 0 [] =
      Inr [replicate 18 (Fin 0)]"
    unfolding w by (simp add: fields del: decode_fields.simps replicate.simps replicate_Suc)
  have result: "finish (length (types h)) [replicate 18 (Fin 0)] = replicate 18 [Fin 0]"
    by (simp add: h_def finish_def transpose_rows_def eval_nat_numeral)
  show ?thesis
    by (simp only: decode_pcd_def parse check fmts points result and_then_Inr)
qed

lemma unpack_zero32:
  "unpack (CHR ''f'') [CHR 0x00, CHR 0x00, CHR 0x00, CHR 0x00] = Inr (Fin 0)"
  by (simp add: unpack_def struct_size_def unpack_value_def byte_vals ieee_def Let_def)

lemma decode_fields_zero_f:
  "4 < length payload \<Longrightarrow> take 4 payload = [CHR 0x00, CHR 0x00, CHR 0x00, CHR 0x00] \<Longrightarrow>
   decode_fields [''4''] ''f'' payload (Suc 0) 0 0 [] = Inr ([Fin 0], 4)"
  by (simp add: index_def py_int_sizes slice_def clamp_index_def Let_def unpack_zero32)

lemma one_field_parse:
  "parse_meta (header_lines ''x'' ''4'' ''F'' ''2'' ''1'') =
     Inr \<lparr>sizes = [''4''], types = [''F''], counts = [''2''], width = 1, height = 1,
          data = ''binary''\<rparr>"
  "parse_meta (header_lines ''x'' ''4'' ''F'' ''1'' ''1'') =
     Inr \<lparr>sizes = [''4''], types = [''F''], counts = [''1''], width = 1, height = 1,
          data = ''binary''\<rparr>"
  "parse_meta (header_lines ''x'' ''4'' ''F'' ''1'' ''2'') =
     Inr \<lparr>sizes = [''4''], types = [''F''], counts = [''1''], width = 2, height = 1,
          data = ''binary''\<rparr>"
  by code_simp+

lemma one_field_types_str: "types_str_of (zip [''F''] [''4'']) = Inr ''f''"
  by code_simp

lemma check_header_counts: "check_header (h\<lparr>counts := cs\<rparr>) = check_header h"
  by (simp add: check_header_def)

lemma decode_pcd_one_point:
  assumes "parse_meta meta =
      Inr \<lparr>sizes = [''4''], types = [''F''], counts = cs, width = 1, height = 1,
           data = ''binary''\<rparr>"
  shows "decode_pcd meta (zero32 @ [CHR 0x00]) = Inr [[Fin 0]]"
    and "decode_pcd meta zero32 = Inl AssertionError"
proof -
  define h where "h = \<lparr>sizes = [''4''], types = [''F''], counts = cs, width = 1, height = 1,
           data = ''binary''\<rparr>"
  have parse: "parse_meta meta = Inr h"
    using assms by (simp add: h_def)
  have check: "check_header h = Inr ()"
    by (simp add: h_def check_header_def py_assert_def)
  have fmts: "types_str_of (zip (types h) (sizes h)) = Inr ''f''"
    using one_field_types_str by (simp add: h_def)
  have points: "decode_points (sizes h) ''f'' (zero32 @ [CHR 0x00]) (length (types h))
      (nat (width h)) 0 [] = Inr [[Fin 0]]"
    by (simp add: h_def decode_fields_zero_f zero32_def del: decode_fields.simps)
  have result: "finish (length (types h)) [[Fin 0]] = [[Fin 0]]"
    by (simp add: h_def finish_def transpose_rows_def)
  show "decode_pcd meta (zero32 @ [CHR 0x00]) = Inr [[Fin 0]]"
    by (simp only: decode_pcd_def parse check fmts points result and_then_Inr)
  have bound: "decode_points (sizes h) ''f'' zero32 (length (types h)) (nat (width h)) 0 [] =
      Inl AssertionError"
    by (simp add: h_def index_def py_int_sizes zero32_def)
  show "decode_pcd meta zero32 = Inl AssertionError"
    by (simp only: decode_pcd_def parse check fmts bound and_then_Inr and_then_Inl)
qed

lemma read_one_field:
  "read_header [] [] (pcd_file (header_lines ''x'' ''4'' ''F'' ''2'' ''1'') (zero32 @ [CHR 0x00])) =
     Inr (header_lines ''x'' ''4'' ''F'' ''2'' ''1'', zero32 @ [CHR 0x00])"
  "read_header [] [] (pcd_file (header_lines ''x'' ''4'' ''F'' ''1'' ''1'') (zero32 @ [CHR 0x00])) =
     Inr (header_lines ''x'' ''4'' ''F'' ''1'' ''1'', zero32 @ [CHR 0x00])"
  "read_header [] [] (pcd_file (header_lines ''x'' ''4'' ''F'' ''1'' ''1'') zero32) =
     Inr (header_lines ''x'' ''4'' ''F'' ''1'' ''1'', zero32)"
  "read_header [] [] (pcd_file (header_lines ''x'' ''4'' ''F'' ''1'' ''2'') (nan32 @ one32 @ [CHR 0x00])) =
     Inr (header_lines ''x'' ''4'' ''F'' ''1'' ''2'', nan32 @ one32 @ [CHR 0x00])"
  by code_simp+

lemma decode_fields_inside:
  "decode_fields sizes0 ts payload (Suc k) p off pt = Inr (pt', off') \<Longrightarrow>
   off' < int (length payload)"
proof (induction k arbitrary: p off pt)
  case 0
  then show ?case
    by (auto simp: Let_def split: sum.splits if_splits)
next
  case (Suc k)
  from Suc.prems obtain p' off1 pt1 where
    "decode_fields sizes0 ts payload (Suc k) p' off1 pt1 = Inr (pt', off')"
    by (subst (asm) decode_fields.simps) (auto simp: Let_def split: sum.splits if_splits)
  then show ?case
    by (rule Suc.IH)
qed



text \<open>A header line may hold multi-byte UTF-8 text.\<close>

lemma decode_utf8_multibyte:
  "decode_utf8 [CHR ''#'', CHR '' '', CHR 0xC3, CHR 0xA9] = Inr [CHR ''#'', CHR '' '', CHR 0xC3, CHR 0xA9]"
  by (simp add: decode_utf8_def byte_val_def continuation_def)

text \<open>
  C1 does not hold of the code (a defect of line 81). The COUNT check compares every
  count with itself, so its result does not depend on the COUNT line: a file whose COUNT
  line is \<open>COUNT 2\<close> passes the header checks and its payload is decoded.
\<close>

theorem count_check_accepts_any_count:
  "check_header (h\<lparr>counts := cs\<rparr>) = check_header h \<and>
   load_pcd_bin (pcd_file (header_lines ''x'' ''4'' ''F'' ''2'' ''1'') (zero32 @ [CHR 0x00])) =
     Inr [[Fin 0]]"
  by (simp add: check_header_counts load_pcd_bin_def read_one_field
      decode_pcd_one_point(1) [OF one_field_parse(1)])

text \<open>
  C3 does not hold of the code (a defect of line 100). The bounds assertion asks for
  \<open>end_p < len(data_binary)\<close>, so the last field of a payload of exactly
  \<open>WIDTH * (sum of SIZE)\<close> bytes is refused, although no read passes the end of the
  payload: a well-formed file of one point of one four-byte field with a payload of
  four bytes raises \<^verbatim>\<open>AssertionError\<close>, and decodes once a fifth byte follows.
\<close>

theorem exact_payload_bounds_error:
  "length zero32 = 1 * 4 \<and>
   load_pcd_bin (pcd_file (header_lines ''x'' ''4'' ''F'' ''1'' ''1'') zero32) = Inl AssertionError \<and>
   load_pcd_bin (pcd_file (header_lines ''x'' ''4'' ''F'' ''1'' ''1'') (zero32 @ [CHR 0x00])) =
     Inr [[Fin 0]]"
  by (simp add: load_pcd_bin_def read_one_field decode_pcd_one_point [OF one_field_parse(2)])
    (simp add: zero32_def)

lemma from_file_pcd:
  assumes "endswith file_name ''.pcd''" "\<not> endswith file_name ''.bin''"
    "load_pcd_bin content = Inr m"
  shows "from_file file_name content =
           (if length m = 4 then Inr \<lparr>points = m\<rparr> else Inl AssertionError)"
  using assms by (simp add: from_file_def PointCloud_init_def py_assert_def)

text \<open>
  C4 does not hold of the code. A radar file with the eighteen fields of the docstring
  decodes to a matrix of eighteen rows, and \<^verbatim>\<open>from_file\<close> then fails in the
  constructor, which asserts four rows.
\<close>

theorem from_file_rejects_radar:
  "load_pcd_bin (pcd_file radar_header (replicate 44 (CHR 0x00))) = Inr (replicate 18 [Fin 0]) \<and>
   from_file ''radar.pcd'' (pcd_file radar_header (replicate 44 (CHR 0x00))) = Inl AssertionError"
proof -
  have load: "load_pcd_bin (pcd_file radar_header (replicate 44 (CHR 0x00))) =
      Inr (replicate 18 [Fin 0])"
    by (simp only: load_pcd_bin_def radar_read radar_decode and_then_Inr prod.case)
  have name: "endswith ''radar.pcd'' ''.pcd''" "\<not> endswith ''radar.pcd'' ''.bin''"
    by code_simp+
  show ?thesis
    using from_file_pcd [OF name load] load by simp
qed





end
